theory Spec2Isabelle
  imports Complex_Main
begin

section \<open>JavaScript values\<close>

text \<open>
  A JavaScript number is a finite value, one of the two infinities, or NaN. Finite doubles
  are idealised as exact reals: rounding error, overflow and the sign of zero are not
  modelled. The special values follow IEEE 754 as JavaScript does.
\<close>

datatype number = Finite real | PosInf | NegInf | NaN

datatype jsval =
    Undefined
  | Null
  | JBool bool
  | JNum number
  | JStr string
  | JObj nat  \<comment> \<open>any object or function, by reference\<close>

fun js_neg :: "number \<Rightarrow> number" where
  "js_neg (Finite x) = Finite (- x)"
| "js_neg PosInf = NegInf"
| "js_neg NegInf = PosInf"
| "js_neg NaN = NaN"

fun js_add :: "number \<Rightarrow> number \<Rightarrow> number" where
  "js_add NaN b = NaN"
| "js_add a NaN = NaN"
| "js_add (Finite x) (Finite y) = Finite (x + y)"
| "js_add PosInf NegInf = NaN"
| "js_add NegInf PosInf = NaN"
| "js_add PosInf b = PosInf"
| "js_add a PosInf = PosInf"
| "js_add NegInf b = NegInf"
| "js_add a NegInf = NegInf"

definition js_sub :: "number \<Rightarrow> number \<Rightarrow> number" where
  "js_sub a b = js_add a (js_neg b)"

fun js_sgn :: "number \<Rightarrow> real" where
  "js_sgn (Finite x) = sgn x"
| "js_sgn PosInf = 1"
| "js_sgn NegInf = - 1"
| "js_sgn NaN = 0"

definition signed_inf :: "real \<Rightarrow> number" where
  "signed_inf s = (if s = 0 then NaN else if 0 < s then PosInf else NegInf)"

fun js_mul :: "number \<Rightarrow> number \<Rightarrow> number" where
  "js_mul NaN b = NaN"
| "js_mul a NaN = NaN"
| "js_mul (Finite x) (Finite y) = Finite (x * y)"
| "js_mul a b = signed_inf (js_sgn a * js_sgn b)"

text \<open>Division; a zero divisor is taken as \<open>+0\<close>.\<close>

fun js_div :: "number \<Rightarrow> number \<Rightarrow> number" where
  "js_div NaN b = NaN"
| "js_div a NaN = NaN"
| "js_div (Finite x) (Finite y) = (if y = 0 then signed_inf (sgn x) else Finite (x / y))"
| "js_div (Finite x) b = Finite 0"
| "js_div a (Finite y) = signed_inf (js_sgn a * (if y < 0 then - 1 else 1))"
| "js_div a b = NaN"

fun js_lt :: "number \<Rightarrow> number \<Rightarrow> bool" where
  "js_lt NaN b = False"
| "js_lt a NaN = False"
| "js_lt (Finite x) (Finite y) = (x < y)"
| "js_lt a NegInf = False"
| "js_lt PosInf b = False"
| "js_lt NegInf b = True"
| "js_lt a PosInf = True"

definition js_gt :: "number \<Rightarrow> number \<Rightarrow> bool" where
  "js_gt a b = js_lt b a"

definition js_le :: "number \<Rightarrow> number \<Rightarrow> bool" where
  "js_le a b = (a \<noteq> NaN \<and> b \<noteq> NaN \<and> \<not> js_lt b a)"

text \<open>\<open>Math.max(a, b)\<close>: NaN when either argument is NaN.\<close>

definition Math_max :: "number \<Rightarrow> number \<Rightarrow> number" where
  "Math_max a b = (if a = NaN \<or> b = NaN then NaN else if js_lt a b then b else a)"

text \<open>\<open>Math.round\<close>: the nearest integer, halves towards \<open>+\<infinity>\<close>.\<close>

fun Math_round :: "number \<Rightarrow> number" where
  "Math_round (Finite x) = Finite (of_int \<lfloor>x + 1 / 2\<rfloor>)"
| "Math_round n = n"

fun num_truthy :: "number \<Rightarrow> bool" where
  "num_truthy (Finite x) = (x \<noteq> 0)"
| "num_truthy NaN = False"
| "num_truthy n = True"

text \<open>\<open>ToBoolean\<close>, so that \<open>!v\<close> is \<open>\<not> truthy v\<close>.\<close>

fun truthy :: "jsval \<Rightarrow> bool" where
  "truthy Undefined = False"
| "truthy Null = False"
| "truthy (JBool b) = b"
| "truthy (JNum n) = num_truthy n"
| "truthy (JStr s) = (s \<noteq> [])"
| "truthy (JObj r) = True"

text \<open>\<open>typeof v === "number"\<close>.\<close>

fun is_number :: "jsval \<Rightarrow> bool" where
  "is_number (JNum n) = True"
| "is_number v = False"

text \<open>\<open>x || 0\<close> on a number \<open>x\<close>.\<close>

definition or_zero :: "number \<Rightarrow> number" where
  "or_zero x = (if num_truthy x then x else Finite 0)"

section \<open>Module state\<close>

datatype event = LAG_EVENT | EASING_EVENT

datatype error = Error string

text \<open>
  A timer created by \<open>setInterval\<close>: its handle, its delay, and the two variables
  \<open>isLagging\<close> and \<open>lagTicks\<close> that \<open>start\<close> declares for the callback it
  schedules. Every call of \<open>start\<close> makes a new pair of them.
\<close>

record timer =
  handle :: nat
  delay :: number
  isLagging :: bool
  lagTicks :: int

text \<open>
  The module's variables, and the part of the runtime they refer to: the timers that are
  scheduled (\<open>timers\<close>, with \<open>nextHandle\<close> the next unused handle) and the listeners
  held by \<open>eventEmitter\<close>, per event. \<open>lastTime\<close> and \<open>checkInterval\<close> are
  \<open>None\<close> while they are \<open>undefined\<close>.
\<close>

record state =
  lastTime :: "int option"
  highWater :: number
  interval :: number
  smoothingFactor :: number
  successiveLags :: number
  currentLag :: number
  checkInterval :: "nat option"
  lagEventThreshold :: number
  eventEmitter :: "event \<Rightarrow> nat list"
  timers :: "timer list"
  nextHandle :: nat

text \<open>
  \<open>setInterval(callback, interval)\<close> inside \<open>start\<close>: a new timer with a fresh handle
  is scheduled next to those already there. \<open>clearInterval\<close> cancels the timer of the
  handle it is given, does nothing on \<open>undefined\<close> or on a handle already cancelled, and
  returns \<open>undefined\<close>. \<open>checkInterval.unref()\<close> only lets the process exit while the
  timer is scheduled; it has no effect on the state and is left out.
\<close>

definition start :: "state \<Rightarrow> state" where
  "start s =
     s\<lparr>timers := timers s @
          [\<lparr>handle = nextHandle s, delay = interval s, isLagging = False, lagTicks = 0\<rparr>],
       checkInterval := Some (nextHandle s),
       nextHandle := Suc (nextHandle s)\<rparr>"

definition clearInterval :: "nat option \<Rightarrow> timer list \<Rightarrow> timer list" where
  "clearInterval h ts =
     (case h of None \<Rightarrow> ts | Some k \<Rightarrow> filter (\<lambda>t. handle t \<noteq> k) ts)"

section \<open>The public functions\<close>

text \<open>
  A function that may throw returns the error or its value, and the state it leaves.
  \<open>Math.random()\<close> is the argument \<open>r\<close> of \<open>toobusy\<close>.
\<close>

definition toobusy :: "state \<Rightarrow> real \<Rightarrow> bool" where
  "toobusy s r =
     (let pctToBlock = js_div (js_sub (currentLag s) (highWater s)) (highWater s)
      in js_lt (Finite r) pctToBlock)"

definition toobusy_interval :: "state \<Rightarrow> jsval \<Rightarrow> (error + number) \<times> state" where
  "toobusy_interval s newInterval =
     (if \<not> truthy newInterval then (Inr (interval s), s)
      else case newInterval of
        JNum n \<Rightarrow>
          (let n' = Math_round n in
           if js_lt n' (Finite 16) then (Inl (Error ''Interval should be greater than 16ms.''), s)
           else (let s' = start (s\<lparr>currentLag := Finite 0, interval := n'\<rparr>)
                 in (Inr (interval s'), s')))
      | _ \<Rightarrow> (Inl (Error ''Interval must be a number.''), s))"

definition toobusy_lag :: "state \<Rightarrow> number" where
  "toobusy_lag s = Math_round (currentLag s)"

definition toobusy_maxLag :: "state \<Rightarrow> jsval \<Rightarrow> (error + number) \<times> state" where
  "toobusy_maxLag s newLag =
     (if \<not> truthy newLag then (Inr (highWater s), s)
      else case newLag of
        JNum n \<Rightarrow>
          (let n' = Math_round n in
           if js_lt n' (Finite 10) then (Inl (Error ''Maximum lag should be greater than 10ms.''), s)
           else (Inr n', s\<lparr>highWater := n'\<rparr>))
      | _ \<Rightarrow> (Inl (Error ''MaxLag must be a number.''), s))"

definition toobusy_consecutiveLags :: "state \<Rightarrow> jsval \<Rightarrow> (error + number) \<times> state" where
  "toobusy_consecutiveLags s threshold =
     (if \<not> truthy threshold then (Inr (successiveLags s), s)
      else case threshold of
        JNum n \<Rightarrow> (Inr (Math_round n), s\<lparr>successiveLags := Math_round n\<rparr>)
      | _ \<Rightarrow> (Inl (Error ''threshold must be a number.''), s))"

definition toobusy_smoothingFactor :: "state \<Rightarrow> jsval \<Rightarrow> (error + number) \<times> state" where
  "toobusy_smoothingFactor s newFactor =
     (if \<not> truthy newFactor then (Inr (smoothingFactor s), s)
      else case newFactor of
        JNum n \<Rightarrow>
          (if js_le n (Finite 0) \<or> js_gt n (Finite 1)
           then (Inl (Error ''Smoothing factor should be in range ]0,1].''), s)
           else (Inr n, s\<lparr>smoothingFactor := n\<rparr>))
      | _ \<Rightarrow> (Inl (Error ''NewFactor must be a number.''), s))"

definition toobusy_shutdown :: "state \<Rightarrow> state" where
  "toobusy_shutdown s =
     s\<lparr>currentLag := Finite 0,
       timers := clearInterval (checkInterval s) (timers s),
       checkInterval := None,
       eventEmitter := (eventEmitter s)(LAG_EVENT := [])\<rparr>"

definition toobusy_started :: "state \<Rightarrow> bool" where
  "toobusy_started s = (checkInterval s \<noteq> None)"

text \<open>
  \<open>onLag(fn, threshold)\<close> and \<open>onEasing(fn)\<close>, for a function \<open>fn\<close>. Without a
  numeric threshold \<open>onLag\<close> calls \<open>toobusy.maxLag()\<close> with no argument, which returns
  \<open>highWater\<close> (lemma \<open>maxLag_no_argument\<close>).
\<close>

definition toobusy_onLag :: "state \<Rightarrow> nat \<Rightarrow> jsval \<Rightarrow> state" where
  "toobusy_onLag s fn threshold =
     (let s' = (case threshold of
                  JNum n \<Rightarrow> s\<lparr>lagEventThreshold := n\<rparr>
                | _ \<Rightarrow> s\<lparr>lagEventThreshold := highWater s\<rparr>)
      in s'\<lparr>eventEmitter := (eventEmitter s')(LAG_EVENT := eventEmitter s' LAG_EVENT @ [fn])\<rparr>)"

definition toobusy_onEasing :: "state \<Rightarrow> nat \<Rightarrow> state" where
  "toobusy_onEasing s fn =
     s\<lparr>eventEmitter := (eventEmitter s)(EASING_EVENT := eventEmitter s EASING_EVENT @ [fn])\<rparr>"

section \<open>The sampler\<close>

text \<open>
  The callback that \<open>start\<close> schedules, run at \<open>Date.now() = now\<close> with the variables
  \<open>c\<close> of its timer. It returns the module state, the timer's variables and the calls
  of \<open>eventEmitter.emit\<close> it made, each with its event and argument. What the listeners
  do when called is outside the model.
\<close>

definition check :: "int \<Rightarrow> state \<Rightarrow> timer \<Rightarrow> state \<times> timer \<times> (event \<times> number) list" where
  "check now s c =
     (let lag0 = js_sub (Finite (of_int now))
                   (case lastTime s of None \<Rightarrow> NaN | Some t \<Rightarrow> Finite (of_int t));
          lag = Math_max (Finite 0) (js_sub lag0 (interval s));
          cl = or_zero (js_add (js_mul (smoothingFactor s) lag)
                               (js_mul (js_sub (Finite 1) (smoothingFactor s)) (currentLag s)));
          s' = s\<lparr>currentLag := cl, lastTime := Some now\<rparr>
      in if lagEventThreshold s' \<noteq> Finite (- 1) \<and> js_gt cl (lagEventThreshold s') \<and> isLagging c = False
         then (let n = lagTicks c + 1 in
               if js_gt (Finite (of_int n)) (js_sub (successiveLags s') (Finite 1))
               then (s', c\<lparr>lagTicks := n, isLagging := True\<rparr>, [(LAG_EVENT, cl)])
               else (s', c\<lparr>lagTicks := n\<rparr>, []))
         else (let easing = (0 < lagTicks c \<and> lagTicks c - 1 = 0 \<and> isLagging c);
                   n = (if 0 < lagTicks c then lagTicks c - 1 else lagTicks c)
               in (s', c\<lparr>isLagging := (if easing then False else isLagging c), lagTicks := n\<rparr>,
                   if easing then [(EASING_EVENT, cl)] else [])))"

text \<open>
  The timer with handle \<open>h\<close> fires at time \<open>now\<close>. A handle that is not scheduled
  cannot fire: the state stays as it is.
\<close>

definition tick :: "nat \<Rightarrow> int \<Rightarrow> state \<Rightarrow> state \<times> (event \<times> number) list" where
  "tick h now s =
     (case find (\<lambda>t. handle t = h) (timers s) of
        None \<Rightarrow> (s, [])
      | Some c \<Rightarrow>
          (case check now s c of
             (s', c', es) \<Rightarrow>
               (s'\<lparr>timers := map (\<lambda>t. if handle t = h then c' else t) (timers s')\<rparr>, es)))"

text \<open>A run of ticks, each given by the handle that fires and the time; the calls of
  \<open>emit\<close> are collected in order.\<close>

fun ticks :: "(nat \<times> int) list \<Rightarrow> state \<Rightarrow> state \<times> (event \<times> number) list" where
  "ticks [] s = (s, [])"
| "ticks ((h, now) # rest) s =
     (case tick h now s of
        (s', es) \<Rightarrow> (case ticks rest s' of (s'', es') \<Rightarrow> (s'', es @ es')))"

text \<open>The state once the module is loaded: the initial values, then \<open>start()\<close>.\<close>

definition loaded :: state where
  "loaded = start
     \<lparr>lastTime = None, highWater = Finite 70, interval = Finite 500,
      smoothingFactor = Finite (1 / 3), successiveLags = Finite 1, currentLag = Finite 0,
      checkInterval = None, lagEventThreshold = Finite (- 1),
      eventEmitter = (\<lambda>e. []), timers = [], nextHandle = 0\<rparr>"

section \<open>The smoother as specified\<close>

text \<open>
  The specification's recurrence \<open>next = \<alpha>\<cdot>lag + (1 - \<alpha>)\<cdot>prev\<close>, its iteration over
  a list of raw samples from a starting value, and the raw samples
  \<open>max(0, elapsed - sampleIntervalMs)\<close> of a run of ticks at times \<open>ts\<close> that follows
  a tick at \<open>t0\<close>.
\<close>

definition spec_next :: "real \<Rightarrow> real \<Rightarrow> real \<Rightarrow> real" where
  "spec_next \<alpha> prev lag = \<alpha> * lag + (1 - \<alpha>) * prev"

definition spec_smoothed :: "real \<Rightarrow> real \<Rightarrow> real list \<Rightarrow> real" where
  "spec_smoothed \<alpha> start_value ls = foldl (spec_next \<alpha>) start_value ls"

fun spec_raw_samples :: "real \<Rightarrow> int \<Rightarrow> int list \<Rightarrow> real list" where
  "spec_raw_samples iv t0 [] = []"
| "spec_raw_samples iv t0 (t # ts) =
     max 0 (of_int t - of_int t0 - iv) # spec_raw_samples iv t ts"

section \<open>Facts about the sampler\<close>

text \<open>What one run of the callback does to the module state, whatever the timer.\<close>

lemma check_state:
  "check now s c = (s', c', es) \<Longrightarrow>
     s' = s\<lparr>currentLag := or_zero (js_add (js_mul (smoothingFactor s)
          (Math_max (Finite 0) (js_sub (js_sub (Finite (of_int now))
             (case lastTime s of None \<Rightarrow> NaN | Some t \<Rightarrow> Finite (of_int t))) (interval s))))
          (js_mul (js_sub (Finite 1) (smoothingFactor s)) (currentLag s))),
       lastTime := Some now\<rparr> \<and> handle c' = handle c"
  by (auto simp: check_def Let_def split: if_splits)

lemma find_scheduled:
  "h \<in> handle ` set ts \<Longrightarrow> \<exists>c. find (\<lambda>t. handle t = h) ts = Some c \<and> handle c = h"
  by (induction ts) auto

lemma handles_map:
  "handle c' = h \<Longrightarrow>
     handle ` set (map (\<lambda>t. if handle t = h then c' else t) ts) = handle ` set ts"
  by (induction ts) auto

lemma tick_scheduled:
  assumes "h \<in> handle ` set (timers s)"
  shows "\<exists>ts. fst (tick h now s) = s\<lparr>currentLag := or_zero (js_add (js_mul (smoothingFactor s)
          (Math_max (Finite 0) (js_sub (js_sub (Finite (of_int now))
             (case lastTime s of None \<Rightarrow> NaN | Some t \<Rightarrow> Finite (of_int t))) (interval s))))
          (js_mul (js_sub (Finite 1) (smoothingFactor s)) (currentLag s))),
       lastTime := Some now, timers := ts\<rparr>
           \<and> handle ` set ts = handle ` set (timers s)"
proof -
  from find_scheduled [OF assms] obtain c
    where c: "find (\<lambda>t. handle t = h) (timers s) = Some c" "handle c = h" by blast
  obtain s' c' es where chk: "check now s c = (s', c', es)"
    by (cases "check now s c") auto
  from check_state [OF chk]
  have s': "s' = s\<lparr>currentLag := or_zero (js_add (js_mul (smoothingFactor s)
          (Math_max (Finite 0) (js_sub (js_sub (Finite (of_int now))
             (case lastTime s of None \<Rightarrow> NaN | Some t \<Rightarrow> Finite (of_int t))) (interval s))))
          (js_mul (js_sub (Finite 1) (smoothingFactor s)) (currentLag s))),
       lastTime := Some now\<rparr>"
    and h': "handle c' = h" using c(2) by auto
  have "fst (tick h now s) = s'\<lparr>timers := map (\<lambda>t. if handle t = h then c' else t) (timers s')\<rparr>"
    by (simp add: tick_def c(1) chk)
  moreover have "timers s' = timers s" by (simp add: s')
  ultimately have "fst (tick h now s) =
      s'\<lparr>timers := map (\<lambda>t. if handle t = h then c' else t) (timers s)\<rparr>"
    by simp
  then show ?thesis
    unfolding s' using handles_map [OF h', of "timers s"]
    by (intro exI [of _ "map (\<lambda>t. if handle t = h then c' else t) (timers s)"]) simp
qed

lemma tick_unscheduled:
  "h \<notin> handle ` set (timers s) \<Longrightarrow> tick h now s = (s, [])"
proof -
  assume "h \<notin> handle ` set (timers s)"
  then have "find (\<lambda>t. handle t = h) (timers s) = None"
    by (auto simp: find_None_iff)
  then show ?thesis by (simp add: tick_def)
qed

lemma js_mul_NaN: "js_mul a NaN = NaN"
  by (cases a) simp_all

lemma fst_ticks_Cons:
  "fst (ticks ((h, now) # rest) s) = fst (ticks rest (fst (tick h now s)))"
  by (simp split: prod.splits)

text \<open>A tick that follows another one applies the recurrence to the raw sample.\<close>

lemma tick_smooth:
  assumes "h \<in> handle ` set (timers s)" "lastTime s = Some t0" "interval s = Finite iv"
    "smoothingFactor s = Finite \<alpha>" "currentLag s = Finite c"
  shows "currentLag (fst (tick h now s)) =
           Finite (spec_next \<alpha> c (max 0 (of_int now - of_int t0 - iv)))"
    and "lastTime (fst (tick h now s)) = Some now"
    and "interval (fst (tick h now s)) = Finite iv"
    and "smoothingFactor (fst (tick h now s)) = Finite \<alpha>"
    and "handle ` set (timers (fst (tick h now s))) = handle ` set (timers s)"
  using tick_scheduled [OF assms(1), of now] assms(2-)
  by (auto simp: js_sub_def Math_max_def or_zero_def spec_next_def max_def)

text \<open>The first tick: \<open>lastTime\<close> is \<open>undefined\<close>, the sum is NaN, and 0 is stored.\<close>

lemma tick_first:
  assumes "h \<in> handle ` set (timers s)" "lastTime s = None"
  shows "currentLag (fst (tick h now s)) = Finite 0"
    and "lastTime (fst (tick h now s)) = Some now"
    and "interval (fst (tick h now s)) = interval s"
    and "smoothingFactor (fst (tick h now s)) = smoothingFactor s"
    and "handle ` set (timers (fst (tick h now s))) = handle ` set (timers s)"
  using tick_scheduled [OF assms(1), of now] assms(2-)
  by (auto simp: js_sub_def Math_max_def or_zero_def js_mul_NaN)

lemma ticks_smooth:
  assumes "\<forall>p \<in> set hts. fst p \<in> handle ` set (timers s)" "lastTime s = Some t0"
    "interval s = Finite iv" "smoothingFactor s = Finite \<alpha>" "currentLag s = Finite c"
  shows "currentLag (fst (ticks hts s)) =
           Finite (spec_smoothed \<alpha> c (spec_raw_samples iv t0 (map snd hts)))"
  using assms
proof (induction hts arbitrary: s t0 c)
  case Nil
  then show ?case by (simp add: spec_smoothed_def)
next
  case (Cons p hts)
  obtain h now where p: "p = (h, now)" by (cases p)
  let ?s = "fst (tick h now s)"
  have h: "h \<in> handle ` set (timers s)" using Cons.prems(1) p by simp
  note t = tick_smooth [OF h Cons.prems(2-5), of now]
  have "currentLag (fst (ticks hts ?s)) =
        Finite (spec_smoothed \<alpha> (spec_next \<alpha> c (max 0 (of_int now - of_int t0 - iv)))
           (spec_raw_samples iv now (map snd hts)))"
    using Cons.prems(1) t by (intro Cons.IH) auto
  then show ?case
    by (simp add: p spec_smoothed_def fst_ticks_Cons del: ticks.simps)
qed

section \<open>The busy decision\<close>

text \<open>
  C1. With \<open>highWater = h \<ge> 10\<close>, a current lag \<open>l\<close> and a draw \<open>r\<close> in \<open>[0, 1)\<close>,
  \<open>toobusy()\<close> returns \<open>r < (l - h) / h\<close>. So it returns false whenever \<open>l \<le> h\<close>, true
  whenever \<open>l \<ge> 2h\<close>, and in between it is true exactly for the draws below
  \<open>(l - h) / h\<close>, which is linear in \<open>l\<close>.
\<close>

theorem busy_decision:
  assumes "highWater s = Finite h" and "10 \<le> h" and "currentLag s = Finite l"
    and "0 \<le> r" and "r < 1"
  shows "toobusy s r = (r < (l - h) / h) \<and>
         (l \<le> h \<longrightarrow> \<not> toobusy s r) \<and>
         (2 * h \<le> l \<longrightarrow> toobusy s r)"
proof -
  have hpos: "0 < h" using assms(2) by simp
  have eq: "toobusy s r = (r < (l - h) / h)"
    using assms(1,3) hpos by (simp add: toobusy_def js_sub_def)
  have iff: "(r < (l - h) / h) = (r * h < l - h)"
    using hpos by (simp add: pos_less_divide_eq)
  have lo: "0 \<le> r * h" using assms(4) hpos by simp
  have hi: "r * h < h" using assms(5) hpos by simp
  show ?thesis using eq iff lo hi by auto
qed

theorem busy_decision_witness:
  "\<not> toobusy (loaded\<lparr>currentLag := Finite 70\<rparr>) (1 / 4) \<and>
   toobusy (loaded\<lparr>currentLag := Finite 105\<rparr>) (1 / 4) \<and>
   \<not> toobusy (loaded\<lparr>currentLag := Finite 105\<rparr>) (3 / 4) \<and>
   toobusy (loaded\<lparr>currentLag := Finite 140\<rparr>) (3 / 4)"
  using busy_decision [of "loaded\<lparr>currentLag := Finite 70\<rparr>" 70 70 "1 / 4"]
    busy_decision [of "loaded\<lparr>currentLag := Finite 105\<rparr>" 70 105 "1 / 4"]
    busy_decision [of "loaded\<lparr>currentLag := Finite 105\<rparr>" 70 105 "3 / 4"]
    busy_decision [of "loaded\<lparr>currentLag := Finite 140\<rparr>" 70 140 "3 / 4"]
  by (simp add: loaded_def start_def)

section \<open>The smoother\<close>

text \<open>
  C4. Whatever the smoothing factor \<open>\<alpha>\<close> (so for every \<open>\<alpha>\<close> in \<open>(0, 1]\<close>), start from
  \<open>currentLag = 0\<close> and let scheduled timers tick at the times \<open>map snd hts\<close>. After a
  previous tick at \<open>t0\<close>, the smoothed lag is the iteration of
  \<open>next = \<alpha>\<cdot>l + (1 - \<alpha>)\<cdot>prev\<close> from 0 over the raw samples
  \<open>max(0, elapsed - sampleIntervalMs)\<close>. On the very first tick \<open>lastTime\<close> is still
  undefined, the computation yields NaN and 0 is stored instead; the ticks after it follow
  the recurrence again.
\<close>

theorem smoothed_lag_recurrence:
  assumes "interval s = Finite iv" and "smoothingFactor s = Finite \<alpha>"
    and "currentLag s = Finite 0"
    and "\<forall>p \<in> set hts. fst p \<in> handle ` set (timers s)"
  shows "(lastTime s = Some t0 \<longrightarrow>
            currentLag (fst (ticks hts s)) =
              Finite (spec_smoothed \<alpha> 0 (spec_raw_samples iv t0 (map snd hts)))) \<and>
         (lastTime s = None \<and> h \<in> handle ` set (timers s) \<longrightarrow>
            currentLag (fst (tick h t0 s)) = Finite 0 \<and>
            currentLag (fst (ticks ((h, t0) # hts) s)) =
              Finite (spec_smoothed \<alpha> 0 (spec_raw_samples iv t0 (map snd hts))))"
proof (intro conjI impI)
  assume "lastTime s = Some t0"
  then show "currentLag (fst (ticks hts s)) =
      Finite (spec_smoothed \<alpha> 0 (spec_raw_samples iv t0 (map snd hts)))"
    using assms by (intro ticks_smooth) auto
next
  assume a: "lastTime s = None \<and> h \<in> handle ` set (timers s)"
  then show "currentLag (fst (tick h t0 s)) = Finite 0"
    by (simp add: tick_first)
next
  assume a: "lastTime s = None \<and> h \<in> handle ` set (timers s)"
  then have h: "h \<in> handle ` set (timers s)" and n: "lastTime s = None" by auto
  note f = tick_first [OF h n, of t0]
  have "currentLag (fst (ticks hts (fst (tick h t0 s)))) =
      Finite (spec_smoothed \<alpha> 0 (spec_raw_samples iv t0 (map snd hts)))"
    using assms f by (intro ticks_smooth) auto
  then show "currentLag (fst (ticks ((h, t0) # hts) s)) =
      Finite (spec_smoothed \<alpha> 0 (spec_raw_samples iv t0 (map snd hts)))"
    by (simp add: fst_ticks_Cons del: ticks.simps)
qed

theorem smoothed_lag_recurrence_witness:
  "currentLag (fst (ticks [(0, 1000), (0, 2000)] (fst (tick 0 0 loaded)))) = Finite (2500 / 9) \<and>
   currentLag (fst (tick 0 0 loaded)) = Finite 0 \<and>
   currentLag (fst (ticks [(0, 0), (0, 1000), (0, 2000)] loaded)) = Finite (2500 / 9)"
proof -
  let ?s = "fst (tick 0 0 loaded)"
  have later: "interval ?s = Finite 500" "smoothingFactor ?s = Finite (1 / 3)"
    "currentLag ?s = Finite 0" "lastTime ?s = Some 0"
    "\<forall>p \<in> set [(0, 1000), (0, 2000)]. fst p \<in> handle ` set (timers ?s)"
    by (simp_all add: loaded_def start_def tick_def check_def Let_def js_sub_def Math_max_def
        or_zero_def js_gt_def)
  have first: "interval loaded = Finite 500" "smoothingFactor loaded = Finite (1 / 3)"
    "currentLag loaded = Finite 0" "lastTime loaded = None"
    "\<forall>p \<in> set [(0, 1000), (0, 2000)]. fst p \<in> handle ` set (timers loaded)"
    "0 \<in> handle ` set (timers loaded)"
    by (simp_all add: loaded_def start_def)
  have v: "spec_smoothed (1 / 3) 0
      (spec_raw_samples 500 0 (map snd [(0::nat, 1000), (0, 2000)])) = 2500 / 9"
    by (simp add: spec_smoothed_def spec_next_def)
  from smoothed_lag_recurrence [OF later(1,2,3,5), of 0 0] later(4)
    smoothed_lag_recurrence [OF first(1,2,3,5), of 0 0] first(4,6)
  show ?thesis unfolding v by simp
qed

section \<open>The hysteresis state machine\<close>

text \<open>
  The branch of the callback that counts \<open>lagTicks\<close> down and emits the easing event is
  the \<open>else\<close> of a test that also asks for \<open>isLagging == false\<close>. Once the timer is
  lagging, that branch runs on every tick, whatever the lag is.
\<close>

lemma check_easing_whatever_the_lag:
  "isLagging c \<Longrightarrow> lagTicks c = 1 \<Longrightarrow>
     snd (snd (check now s c)) = [(EASING_EVENT, currentLag (fst (check now s c)))] \<and>
     \<not> isLagging (fst (snd (check now s c)))"
  by (simp add: check_def Let_def)

text \<open>
  C2. The claim is that \<open>lagTicks\<close> is counted down, and easing emitted, only on a tick
  whose smoothed lag is at most the lag-event threshold. The code does otherwise. With the
  defaults and a listener registered by \<open>onLag(fn)\<close> (threshold 70, one consecutive lag),
  let the timer fire at 0, 1000 and 2000 ms, each time 500 ms late. The smoothed lag is
  \<open>500/3\<close> and then \<open>2500/9\<close>, above 70 both times, and the ticks emit the lag event
  and then the easing event.
\<close>

theorem easing_fires_while_lag_stays_high:
  "lagEventThreshold (toobusy_onLag loaded 7 Undefined) = Finite 70 \<and>
   successiveLags (toobusy_onLag loaded 7 Undefined) = Finite 1 \<and>
   map (currentLag \<circ> fst)
     [ticks [(0, 0), (0, 1000)] (toobusy_onLag loaded 7 Undefined),
      ticks [(0, 0), (0, 1000), (0, 2000)] (toobusy_onLag loaded 7 Undefined)] =
     [Finite (500 / 3), Finite (2500 / 9)] \<and>
   snd (ticks [(0, 0), (0, 1000), (0, 2000)] (toobusy_onLag loaded 7 Undefined)) =
     [(LAG_EVENT, Finite (500 / 3)), (EASING_EVENT, Finite (2500 / 9))]"
  by (simp add: toobusy_onLag_def loaded_def start_def tick_def check_def Let_def js_sub_def
      Math_max_def or_zero_def js_gt_def)

section \<open>Timers\<close>

text \<open>A call of the interval setter that succeeds schedules one more timer and cancels none.\<close>

lemma interval_setter_timers:
  "num_truthy n \<Longrightarrow> \<not> js_lt (Math_round n) (Finite 16) \<Longrightarrow>
     timers (snd (toobusy_interval s (JNum n))) =
       timers s @
       [\<lparr>handle = nextHandle s, delay = Math_round n, isLagging = False, lagTicks = 0\<rparr>]"
  by (simp add: toobusy_interval_def start_def Let_def)

text \<open>
  C3. The claim is that a successful call of the interval setter cancels the timer that was
  scheduled and starts a new one, so that at most one is active. The code calls
  \<open>start()\<close> without \<open>clearInterval\<close>: after \<open>toobusy.interval(16)\<close> on the loaded
  module, the timer of the first \<open>start()\<close> (handle 0, every 500 ms) is still scheduled
  next to the new one (handle 1, every 16 ms), and \<open>checkInterval\<close> holds the new
  handle only.
\<close>

theorem interval_setter_keeps_old_timer:
  "map handle (timers loaded) = [0] \<and>
   fst (toobusy_interval loaded (JNum (Finite 16))) = Inr (Finite 16) \<and>
   map handle (timers (snd (toobusy_interval loaded (JNum (Finite 16))))) = [0, 1] \<and>
   map delay (timers (snd (toobusy_interval loaded (JNum (Finite 16))))) =
     [Finite 500, Finite 16] \<and>
   checkInterval (snd (toobusy_interval loaded (JNum (Finite 16)))) = Some 1"
  by (simp add: toobusy_interval_def loaded_def start_def Let_def)

section \<open>Shutdown\<close>

text \<open>
  What \<open>shutdown()\<close> leaves, in every state: not started, a lag of 0, no lag listeners,
  the easing listeners as they were; a second call changes nothing. With a positive finite
  \<open>highWater\<close>, \<open>toobusy()\<close> is false right after it, and the timer that
  \<open>checkInterval\<close> held is cancelled.
\<close>

lemma shutdown_post:
  "\<not> toobusy_started (toobusy_shutdown s)"
  "toobusy_lag (toobusy_shutdown s) = Finite 0"
  "eventEmitter (toobusy_shutdown s) LAG_EVENT = []"
  "eventEmitter (toobusy_shutdown s) EASING_EVENT = eventEmitter s EASING_EVENT"
  "toobusy_shutdown (toobusy_shutdown s) = toobusy_shutdown s"
  by (simp_all add: toobusy_shutdown_def toobusy_started_def toobusy_lag_def clearInterval_def)

lemma shutdown_not_busy:
  assumes "highWater s = Finite h" "0 < h" "0 \<le> r"
  shows "\<not> toobusy (toobusy_shutdown s) r"
  using assms by (simp add: toobusy_def toobusy_shutdown_def js_sub_def)

lemma shutdown_cancels_current_timer:
  "checkInterval s = Some k \<Longrightarrow> k \<notin> handle ` set (timers (toobusy_shutdown s))"
  by (auto simp: toobusy_shutdown_def clearInterval_def)

lemma shutdown_single_timer:
  "checkInterval s = Some k \<Longrightarrow> handle ` set (timers s) \<subseteq> {k} \<Longrightarrow>
     timers (toobusy_shutdown s) = []"
  by (auto simp: toobusy_shutdown_def clearInterval_def filter_empty_conv)

text \<open>So when the only timer is the one in \<open>checkInterval\<close>, no tick follows a shutdown.\<close>

lemma shutdown_single_timer_no_tick:
  assumes "checkInterval s = Some k" and "handle ` set (timers s) \<subseteq> {k}"
  shows "tick h now (toobusy_shutdown s) = (toobusy_shutdown s, [])"
proof -
  have "timers (toobusy_shutdown s) = []"
    using assms by (rule shutdown_single_timer)
  then show ?thesis by (simp add: tick_unscheduled)
qed

text \<open>
  C7. The claim is that after \<open>shutdown()\<close> every call of \<open>toobusy()\<close> returns false
  until sampling is restarted. That fails once the interval setter has been called: the
  timer it left behind is not the one \<open>shutdown()\<close> cancels. On the loaded module, after
  \<open>toobusy.interval(16)\<close> and \<open>toobusy.shutdown()\<close>, \<open>started()\<close> is false but timer 0
  is still scheduled. Let it fire on time, at 0 and at 500 ms: it measures
  \<open>500 - 16 = 484\<close> ms of lag against the new interval, the smoothed lag is \<open>484/3\<close>
  with \<open>highWater\<close> 70, and \<open>toobusy()\<close> returns true for the draws 0 and 0.999.
\<close>

theorem busy_after_shutdown:
  "\<not> toobusy_started (toobusy_shutdown (snd (toobusy_interval loaded (JNum (Finite 16))))) \<and>
   map handle (timers (toobusy_shutdown (snd (toobusy_interval loaded (JNum (Finite 16)))))) =
     [0] \<and>
   currentLag (fst (ticks [(0, 0), (0, 500)]
     (toobusy_shutdown (snd (toobusy_interval loaded (JNum (Finite 16))))))) =
     Finite (484 / 3) \<and>
   toobusy (fst (ticks [(0, 0), (0, 500)]
     (toobusy_shutdown (snd (toobusy_interval loaded (JNum (Finite 16))))))) 0 \<and>
   toobusy (fst (ticks [(0, 0), (0, 500)]
     (toobusy_shutdown (snd (toobusy_interval loaded (JNum (Finite 16))))))) (999 / 1000)"
  by (simp add: toobusy_interval_def loaded_def start_def toobusy_shutdown_def
      toobusy_started_def clearInterval_def tick_def check_def Let_def js_sub_def Math_max_def
      or_zero_def js_gt_def toobusy_def)

section \<open>The setters\<close>

text \<open>
  C5, as claimed, fails at 0 and at the non-numeric argument \<open>null\<close>: on the loaded
  module \<open>toobusy.smoothingFactor(0)\<close> and \<open>toobusy.smoothingFactor(null)\<close> throw
  nothing and return the stored factor \<open>1/3\<close>.
\<close>

theorem smoothingFactor_zero_reads:
  "toobusy_smoothingFactor loaded (JNum (Finite 0)) = (Inr (Finite (1 / 3)), loaded) \<and>
   toobusy_smoothingFactor loaded Null = (Inr (Finite (1 / 3)), loaded)"
  by (simp add: toobusy_smoothingFactor_def loaded_def start_def)

text \<open>
  C5, amended. The smoothing-factor setter throws on 1.5 and on every truthy argument that
  is not a number, and leaves the state unchanged then. On 0, as on every falsy argument,
  it throws nothing, returns the stored factor and changes nothing. On 0.5 it succeeds and
  stores 0.5.
\<close>

theorem smoothingFactor_setter:
  "toobusy_smoothingFactor s (JNum (Finite (3 / 2))) =
     (Inl (Error ''Smoothing factor should be in range ]0,1].''), s) \<and>
   (truthy v \<and> \<not> is_number v \<longrightarrow>
     toobusy_smoothingFactor s v = (Inl (Error ''NewFactor must be a number.''), s)) \<and>
   toobusy_smoothingFactor s (JNum (Finite 0)) = (Inr (smoothingFactor s), s) \<and>
   (\<not> truthy w \<longrightarrow> toobusy_smoothingFactor s w = (Inr (smoothingFactor s), s)) \<and>
   toobusy_smoothingFactor s (JNum (Finite (1 / 2))) =
     (Inr (Finite (1 / 2)), s\<lparr>smoothingFactor := Finite (1 / 2)\<rparr>)"
  by (cases v) (simp_all add: toobusy_smoothingFactor_def js_le_def js_gt_def)

theorem smoothingFactor_setter_witness:
  "toobusy_smoothingFactor loaded (JStr ''fast'') =
     (Inl (Error ''NewFactor must be a number.''), loaded) \<and>
   toobusy_smoothingFactor loaded Undefined = (Inr (smoothingFactor loaded), loaded)"
  using smoothingFactor_setter [where s = loaded and v = "JStr ''fast''" and w = Undefined]
  by simp

text \<open>
  C6, as claimed, fails at 0 and at 15.5, both below 16, and at the non-numeric argument
  \<open>null\<close>: \<open>toobusy.interval(0)\<close> and \<open>toobusy.interval(null)\<close> return the stored
  interval 500 and change nothing, and \<open>toobusy.interval(15.5)\<close> succeeds and stores 16.
\<close>

theorem interval_setter_below_16:
  "toobusy_interval loaded (JNum (Finite 0)) = (Inr (Finite 500), loaded) \<and>
   toobusy_interval loaded Null = (Inr (Finite 500), loaded) \<and>
   fst (toobusy_interval loaded (JNum (Finite (31 / 2)))) = Inr (Finite 16) \<and>
   interval (snd (toobusy_interval loaded (JNum (Finite (31 / 2))))) = Finite 16"
  by (simp add: toobusy_interval_def start_def Let_def loaded_def)

text \<open>
  C6, amended. The interval setter throws, leaving the state unchanged, when its argument
  is truthy and not a number, or is a number other than 0 and NaN whose rounding
  \<open>Math.round(ms)\<close> is below 16. A falsy argument reads the stored interval. Every other
  number succeeds: the rounded value is stored and returned and the current lag is reset
  to 0; so does 16, which stores 16.
\<close>

theorem interval_setter:
  "(truthy v \<and> \<not> is_number v \<longrightarrow>
      toobusy_interval s v = (Inl (Error ''Interval must be a number.''), s)) \<and>
   (num_truthy n \<and> js_lt (Math_round n) (Finite 16) \<longrightarrow>
      toobusy_interval s (JNum n) = (Inl (Error ''Interval should be greater than 16ms.''), s)) \<and>
   (\<not> truthy w \<longrightarrow> toobusy_interval s w = (Inr (interval s), s)) \<and>
   (num_truthy m \<and> \<not> js_lt (Math_round m) (Finite 16) \<longrightarrow>
      fst (toobusy_interval s (JNum m)) = Inr (Math_round m) \<and>
      interval (snd (toobusy_interval s (JNum m))) = Math_round m \<and>
      currentLag (snd (toobusy_interval s (JNum m))) = Finite 0) \<and>
   fst (toobusy_interval s (JNum (Finite 16))) = Inr (Finite 16) \<and>
   interval (snd (toobusy_interval s (JNum (Finite 16)))) = Finite 16 \<and>
   currentLag (snd (toobusy_interval s (JNum (Finite 16)))) = Finite 0"
  by (cases v) (simp_all add: toobusy_interval_def start_def Let_def)

theorem interval_setter_witness:
  "toobusy_interval loaded (JObj 3) = (Inl (Error ''Interval must be a number.''), loaded) \<and>
   toobusy_interval loaded (JNum (Finite 15)) =
     (Inl (Error ''Interval should be greater than 16ms.''), loaded) \<and>
   toobusy_interval loaded (JBool False) = (Inr (interval loaded), loaded) \<and>
   fst (toobusy_interval loaded (JNum (Finite (161 / 10)))) = Inr (Finite 16) \<and>
   interval (snd (toobusy_interval loaded (JNum (Finite (161 / 10))))) = Finite 16 \<and>
   currentLag (snd (toobusy_interval loaded (JNum (Finite (161 / 10))))) = Finite 0"
  using interval_setter [where s = loaded and v = "JObj 3" and n = "Finite 15"
      and w = "JBool False" and m = "Finite (161 / 10)"]
  by simp

text \<open>
  C8, as claimed, fails at \<open>-5\<close>: \<open>toobusy.consecutiveLags(-5)\<close> on the loaded module
  throws nothing and stores \<open>-5\<close>, which is not at least 1. It does not fail on the
  non-numeric argument \<open>null\<close> either, which reads the stored threshold.
\<close>

theorem consecutiveLags_below_one_stored:
  "toobusy_consecutiveLags loaded (JNum (Finite (- 5))) =
     (Inr (Finite (- 5)), loaded\<lparr>successiveLags := Finite (- 5)\<rparr>) \<and>
   toobusy_consecutiveLags loaded Null = (Inr (successiveLags loaded), loaded) \<and>
   \<not> js_le (Finite 1)
     (successiveLags (snd (toobusy_consecutiveLags loaded (JNum (Finite (- 5))))))"
  by (simp add: toobusy_consecutiveLags_def js_le_def)

text \<open>
  C8, amended. A call of the consecutive-lag-threshold setter that does not fail either
  has a falsy argument and leaves the stored threshold as it was, or has a numeric argument
  and stores its rounding \<open>Math.round(n)\<close>, an integer when the argument is finite,
  with no lower bound. The setter fails, leaving the state unchanged, on the truthy
  arguments that are not numbers.
\<close>

theorem consecutiveLags_setter:
  "(\<not> truthy v \<longrightarrow> toobusy_consecutiveLags s v = (Inr (successiveLags s), s)) \<and>
   (num_truthy n \<longrightarrow>
      toobusy_consecutiveLags s (JNum n) =
        (Inr (Math_round n), s\<lparr>successiveLags := Math_round n\<rparr>)) \<and>
   (x \<noteq> 0 \<longrightarrow>
      (\<exists>k::int. successiveLags (snd (toobusy_consecutiveLags s (JNum (Finite x)))) =
         Finite (of_int k))) \<and>
   (truthy w \<and> \<not> is_number w \<longrightarrow>
      toobusy_consecutiveLags s w = (Inl (Error ''threshold must be a number.''), s))"
  by (cases w) (simp_all add: toobusy_consecutiveLags_def)

theorem consecutiveLags_setter_witness:
  "toobusy_consecutiveLags loaded Undefined = (Inr (successiveLags loaded), loaded) \<and>
   toobusy_consecutiveLags loaded (JNum (Finite (2 / 5))) =
     (Inr (Finite 0), loaded\<lparr>successiveLags := Finite 0\<rparr>) \<and>
   (\<exists>k::int. successiveLags (snd (toobusy_consecutiveLags loaded (JNum (Finite 3)))) =
      Finite (of_int k)) \<and>
   toobusy_consecutiveLags loaded (JStr ''3'') =
     (Inl (Error ''threshold must be a number.''), loaded)"
  using consecutiveLags_setter [where s = loaded and v = Undefined and n = "Finite (2 / 5)"
      and x = 3 and w = "JStr ''3''"]
  by simp

section \<open>Registering lag listeners\<close>

lemma onLag_number: "lagEventThreshold (toobusy_onLag s fn (JNum n)) = n"
  by (simp add: toobusy_onLag_def)

lemma onLag_not_number:
  "\<not> is_number v \<Longrightarrow> lagEventThreshold (toobusy_onLag s fn v) = highWater s"
  by (cases v) (simp_all add: toobusy_onLag_def)

lemma onLag_highWater: "highWater (toobusy_onLag s fn v) = highWater s"
  by (cases v) (simp_all add: toobusy_onLag_def)

lemma onLag_listeners:
  "eventEmitter (toobusy_onLag s fn v) LAG_EVENT = eventEmitter s LAG_EVENT @ [fn]"
  by (cases v) (simp_all add: toobusy_onLag_def)

lemma maxLag_lagEventThreshold:
  "lagEventThreshold (snd (toobusy_maxLag s w)) = lagEventThreshold s"
  by (cases w) (simp_all add: toobusy_maxLag_def Let_def)

text \<open>
  C9. \<open>onLag\<close> with a numeric threshold makes it the lag-event threshold; with any other
  second argument, or none, the threshold becomes \<open>highWater\<close> as it is at that moment.
  A later call of the high-water setter, with any argument, leaves the threshold as
  registered. There is one threshold: a second registration overwrites it, with its own
  number or with \<open>highWater\<close>, while both listeners stay registered.
\<close>

theorem onLag_threshold:
  "lagEventThreshold (toobusy_onLag s fn (JNum n)) = n \<and>
   (\<not> is_number v \<longrightarrow> lagEventThreshold (toobusy_onLag s fn v) = highWater s) \<and>
   lagEventThreshold (snd (toobusy_maxLag (toobusy_onLag s fn u) w)) =
     lagEventThreshold (toobusy_onLag s fn u) \<and>
   lagEventThreshold (toobusy_onLag (toobusy_onLag s fn u) fn' (JNum m)) = m \<and>
   (\<not> is_number v' \<longrightarrow>
      lagEventThreshold (toobusy_onLag (toobusy_onLag s fn u) fn' v') = highWater s) \<and>
   eventEmitter (toobusy_onLag (toobusy_onLag s fn u) fn' u') LAG_EVENT =
     eventEmitter s LAG_EVENT @ [fn, fn']"
  by (simp add: onLag_number onLag_not_number onLag_highWater onLag_listeners
      maxLag_lagEventThreshold)

theorem onLag_threshold_witness:
  "lagEventThreshold (toobusy_onLag loaded 1 Undefined) = Finite 70 \<and>
   lagEventThreshold
     (snd (toobusy_maxLag (toobusy_onLag loaded 1 Undefined) (JNum (Finite 100)))) =
     Finite 70 \<and>
   lagEventThreshold (toobusy_onLag (toobusy_onLag loaded 1 (JNum (Finite 40))) 2 Null) =
     Finite 70"
proof -
  have hw: "highWater loaded = Finite 70"
    by (simp add: loaded_def start_def)
  from onLag_threshold [where s = loaded and fn = 1 and v = Undefined and u = Undefined
      and w = "JNum (Finite 100)"]
    onLag_threshold [where s = loaded and fn = 1 and u = "JNum (Finite 40)" and fn' = 2
      and v' = Null]
  show ?thesis by (simp add: hw)
qed

section \<open>Falsy arguments read the setting\<close>

lemma maxLag_no_argument: "toobusy_maxLag s Undefined = (Inr (highWater s), s)"
  by (simp add: toobusy_maxLag_def)

text \<open>
  C10. Called with a falsy argument (0, NaN, false, null, undefined, the empty string),
  each of the four setters returns the stored value, throws nothing and leaves the whole
  state as it was.
\<close>

theorem falsy_argument_is_getter:
  "\<not> truthy v \<Longrightarrow>
     toobusy_interval s v = (Inr (interval s), s) \<and>
     toobusy_maxLag s v = (Inr (highWater s), s) \<and>
     toobusy_consecutiveLags s v = (Inr (successiveLags s), s) \<and>
     toobusy_smoothingFactor s v = (Inr (smoothingFactor s), s)"
  by (simp add: toobusy_interval_def toobusy_maxLag_def toobusy_consecutiveLags_def
      toobusy_smoothingFactor_def)

theorem falsy_argument_is_getter_witness:
  "toobusy_interval loaded (JNum (Finite 0)) = (Inr (interval loaded), loaded) \<and>
   toobusy_maxLag loaded (JNum NaN) = (Inr (highWater loaded), loaded) \<and>
   toobusy_consecutiveLags loaded (JStr []) = (Inr (successiveLags loaded), loaded) \<and>
   toobusy_smoothingFactor loaded Null = (Inr (smoothingFactor loaded), loaded)"
  using falsy_argument_is_getter [of "JNum (Finite 0)" loaded]
    falsy_argument_is_getter [of "JNum NaN" loaded]
    falsy_argument_is_getter [of "JStr []" loaded]
    falsy_argument_is_getter [of Null loaded]
  by simp

end
